theory Spec2Isabelle
  imports Main "HOL-Library.Word"
begin

unbundle bit_operations_syntax

section \<open>Python values on the wire\<close>

text \<open>
  A Python \<open>str\<close> is a sequence of Unicode code points and a \<open>bytes\<close> object a sequence
  of byte values; both are lists of naturals here. \<open>asc\<close> turns a source literal such as
  \<open>"seq"\<close> into its code points.
\<close>

type_synonym pystr = "nat list"

type_synonym bytes = "nat list"

definition asc :: "string \<Rightarrow> pystr" where
  "asc s = map of_char s"

text \<open>
  The values \<open>json.dumps\<close> and \<open>json.loads\<close> exchange: \<open>None\<close>, \<open>bool\<close>, \<open>int\<close>, \<open>str\<close>,
  \<open>list\<close> and \<open>dict\<close> (an insertion-ordered list of key/value pairs whose keys are
  strings). Floats are left out: none of the requests built in the sources holds one.
\<close>

datatype json =
    JNull
  | JBool bool
  | JInt int
  | JStr pystr
  | JList "json list"
  | JDict "(pystr \<times> json) list"

text \<open>\<open>str(n)\<close> for a non-negative and for an arbitrary Python integer.\<close>

function digits :: "nat \<Rightarrow> pystr" where
  "digits n = (if n < 10 then [48 + n] else digits (n div 10) @ [48 + n mod 10])"
  by pat_completeness auto
termination
  by (relation "measure (\<lambda>n. n)") auto

declare digits.simps [simp del]

definition str_int :: "int \<Rightarrow> pystr" where
  "str_int i = (if i < 0 then 45 # digits (nat (- i)) else digits (nat i))"

text \<open>
  \<open>json.dumps\<close> with its defaults (\<open>ensure_ascii=True\<close>, separators \<open>", "\<close> and \<open>": "\<close>),
  as the standard library's \<open>py_encode_basestring_ascii\<close> escapes a string: the quote,
  the backslash and the control characters with a short escape use it, printable ASCII
  stands for itself, every other code point of the basic plane becomes \<open>\uXXXX\<close> and a
  code point beyond it a surrogate pair of two such escapes.
\<close>

definition hexdigit :: "nat \<Rightarrow> nat" where
  "hexdigit d = (if d < 10 then 48 + d else 87 + d)"

definition hex4 :: "nat \<Rightarrow> pystr" where
  "hex4 n = [hexdigit (n div 4096 mod 16), hexdigit (n div 256 mod 16),
             hexdigit (n div 16 mod 16), hexdigit (n mod 16)]"

definition escape_char :: "nat \<Rightarrow> pystr" where
  "escape_char c =
     (if c = 34 then [92, 34]
      else if c = 92 then [92, 92]
      else if c = 10 then [92, 110]
      else if c = 13 then [92, 114]
      else if c = 9 then [92, 116]
      else if c = 8 then [92, 98]
      else if c = 12 then [92, 102]
      else if 32 \<le> c \<and> c \<le> 126 then [c]
      else if c < 65536 then [92, 117] @ hex4 c
      else (let n = c - 65536 in
              [92, 117] @ hex4 (55296 OR (drop_bit 10 n AND 1023)) @
              [92, 117] @ hex4 (56320 OR (n AND 1023))))"

definition encode_basestring_ascii :: "pystr \<Rightarrow> pystr" where
  "encode_basestring_ascii s = 34 # concat (map escape_char s) @ [34]"

fun join_with :: "'a list \<Rightarrow> 'a list list \<Rightarrow> 'a list" where
  "join_with sep [] = []"
| "join_with sep [x] = x"
| "join_with sep (x # y # ys) = x @ sep @ join_with sep (y # ys)"

fun json_dumps :: "json \<Rightarrow> pystr" where
  "json_dumps JNull = asc ''null''"
| "json_dumps (JBool b) = (if b then asc ''true'' else asc ''false'')"
| "json_dumps (JInt n) = str_int n"
| "json_dumps (JStr s) = encode_basestring_ascii s"
| "json_dumps (JList xs) = asc ''['' @ join_with (asc '', '') (map json_dumps xs) @ asc '']''"
| "json_dumps (JDict kvs) =
     asc ''{'' @
     join_with (asc '', '')
       (map (\<lambda>(k, v). encode_basestring_ascii k @ asc '': '' @ json_dumps v) kvs) @
     asc ''}''"

text \<open>
  \<open>str.encode('utf-8')\<close>: \<open>None\<close> is the \<open>UnicodeEncodeError\<close> Python raises on a lone
  surrogate (and stands for a number that is no code point at all).
\<close>

definition utf8_char :: "nat \<Rightarrow> bytes option" where
  "utf8_char c =
     (if c < 128 then Some [c]
      else if c < 2048 then Some [192 + c div 64, 128 + c mod 64]
      else if 55296 \<le> c \<and> c < 57344 then None
      else if c < 65536 then
        Some [224 + c div 4096, 128 + c div 64 mod 64, 128 + c mod 64]
      else if c < 1114112 then
        Some [240 + c div 262144, 128 + c div 4096 mod 64, 128 + c div 64 mod 64,
              128 + c mod 64]
      else None)"

fun utf8_encode :: "pystr \<Rightarrow> bytes option" where
  "utf8_encode [] = Some []"
| "utf8_encode (c # cs) =
     (case utf8_char c of
        None \<Rightarrow> None
      | Some b \<Rightarrow> (case utf8_encode cs of None \<Rightarrow> None | Some bs \<Rightarrow> Some (b @ bs)))"

text \<open>A string all of whose code points are ASCII; such a string is its own encoding.\<close>

definition is_ascii :: "pystr \<Rightarrow> bool" where
  "is_ascii s = list_all (\<lambda>c. c < 128) s"

subsection \<open>Requests and frames\<close>

text \<open>
  The request envelope both clients build, and the frame each writes to its socket.
  \<open>DAPClient._send_request\<close> puts \<open>len(message)\<close>, the number of code points, in the
  header; \<open>DebugpyClient._send_request\<close> puts \<open>len(message.encode('utf-8'))\<close>, the number
  of bytes. Two carriage-return/line-feed pairs (13, 10) end the header.
\<close>

definition request_json :: "int \<Rightarrow> pystr \<Rightarrow> json \<Rightarrow> json" where
  "request_json seq command arguments =
     JDict [(asc ''seq'', JInt seq), (asc ''type'', JStr (asc ''request'')),
            (asc ''command'', JStr command), (asc ''arguments'', arguments)]"

definition frame_header :: "nat \<Rightarrow> pystr" where
  "frame_header n = asc ''Content-Length: '' @ digits n @ [13, 10, 13, 10]"

definition dap_frame :: "json \<Rightarrow> bytes option" where
  "dap_frame request =
     (let message = json_dumps request;
          content = frame_header (length message) @ message
      in utf8_encode content)"

definition debugpy_frame :: "json \<Rightarrow> bytes option" where
  "debugpy_frame request =
     (let message = json_dumps request in
        case utf8_encode message of
          None \<Rightarrow> None
        | Some encoded \<Rightarrow> utf8_encode (frame_header (length encoded) @ message))"

text \<open>Truth value of a Python object, and \<open>response and response.get("success")\<close>.\<close>

fun truthy :: "json \<Rightarrow> bool" where
  "truthy JNull = False"
| "truthy (JBool b) = b"
| "truthy (JInt n) = (n \<noteq> 0)"
| "truthy (JStr s) = (s \<noteq> [])"
| "truthy (JList xs) = (xs \<noteq> [])"
| "truthy (JDict kvs) = (kvs \<noteq> [])"

text \<open>
  \<open>response and response.get("success")\<close> as a condition: \<open>Some b\<close> is its truth value,
  \<open>None\<close> the \<open>AttributeError\<close> of calling \<open>.get\<close> on a truthy value that is no dict.
\<close>

definition response_ok :: "json option \<Rightarrow> bool option" where
  "response_ok response =
     (case response of
        None \<Rightarrow> Some False
      | Some r \<Rightarrow>
          if \<not> truthy r then Some False
          else (case r of
                  JDict kvs \<Rightarrow>
                    Some (case map_of kvs (asc ''success'') of
                            None \<Rightarrow> False
                          | Some v \<Rightarrow> truthy v)
                | _ \<Rightarrow> None))"

section \<open>The session registry: \<open>DebugpyClient\<close>\<close>

record DebugSession =
  session_id :: string
  host :: string
  port :: int
  is_connected :: bool
  process_id :: "int option"
  status :: string

record Breakpoint =
  breakpoint_id :: int
  file_path :: pystr
  line_number :: int
  is_enabled :: bool
  condition :: "pystr option"
  hit_count :: int

text \<open>
  The client's four attributes, and \<open>wire\<close>: every frame a \<open>sock.send\<close> of the client has
  written, with the session whose socket took it. A socket is the address it is connected
  to. Calls of the logger change nothing the client reads back and are left out.
\<close>

record DebugpyClient =
  sessions :: "string \<rightharpoonup> DebugSession"
  connections :: "string \<rightharpoonup> string \<times> int"
  breakpoints :: "string \<rightharpoonup> Breakpoint list"
  sequence_number :: int
  wire :: "(string \<times> bytes) list"

definition new_client :: DebugpyClient where
  "new_client =
     \<lparr>sessions = Map.empty, connections = Map.empty, breakpoints = Map.empty,
      sequence_number = 1, wire = []\<rparr>"

text \<open>
  What the network does during one \<open>_send_request\<close>: \<open>sock.send\<close> raises, or the frame is
  written and \<open>_read_response\<close> returns a decoded body or \<open>None\<close>, or it is written and
  \<open>_read_line\<close> never returns (at end of stream \<open>sock.recv(1)\<close> yields the empty string
  for ever and the loop has no exit for it).
\<close>

datatype exchange = SendRaises | ReadReturns "json option" | ReadHangs

text \<open>
  \<open>DebugpyClient._send_request\<close>. The result \<open>None\<close> is a call that never returns;
  \<open>Some (c, r)\<close> is the client after the call and the value returned. Every exception
  inside the \<open>try\<close> is caught there, so the call never raises.
\<close>

definition send_request ::
  "DebugpyClient \<Rightarrow> string \<Rightarrow> pystr \<Rightarrow> json \<Rightarrow> exchange \<Rightarrow> (DebugpyClient \<times> json option) option"
where
  "send_request c sid command arguments x =
     (if connections c sid = None then Some (c, None)
      else
        let seq = sequence_number c;
            c1 = c\<lparr>sequence_number := seq + 1\<rparr>
        in case debugpy_frame (request_json seq command arguments) of
             None \<Rightarrow> Some (c1, None)
           | Some frame \<Rightarrow>
               (case x of
                  SendRaises \<Rightarrow> Some (c1, None)
                | ReadReturns r \<Rightarrow> Some (c1\<lparr>wire := wire c1 @ [(sid, frame)]\<rparr>, r)
                | ReadHangs \<Rightarrow> None))"

text \<open>\<open>create_session\<close>; \<open>uuid\<close> is the string \<open>str(uuid.uuid4())\<close> drew.\<close>

definition create_session ::
  "DebugpyClient \<Rightarrow> string \<Rightarrow> int \<Rightarrow> string \<Rightarrow> DebugpyClient \<times> string"
where
  "create_session c h p uuid =
     (let session = \<lparr>session_id = uuid, host = h, port = p, is_connected = False,
                      process_id = None, status = ''created''\<rparr>
      in (c\<lparr>sessions := (sessions c)(uuid \<mapsto> session),
            breakpoints := (breakpoints c)(uuid \<mapsto> [])\<rparr>, uuid))"

definition initialize_arguments :: json where
  "initialize_arguments =
     JDict [(asc ''clientID'', JStr (asc ''debugpy-mcp-server'')),
            (asc ''clientName'', JStr (asc ''Debugpy MCP Server'')),
            (asc ''adapterID'', JStr (asc ''python'')),
            (asc ''pathFormat'', JStr (asc ''path'')),
            (asc ''linesStartAt1'', JBool True),
            (asc ''columnsStartAt1'', JBool True),
            (asc ''supportsVariableType'', JBool True),
            (asc ''supportsVariablePaging'', JBool True),
            (asc ''supportsRunInTerminalRequest'', JBool False)]"

text \<open>
  \<open>connect_session\<close>. \<open>sock.connect\<close> either raises, with the text of the exception, or
  succeeds. The value \<open>_send_request\<close> returns for \<open>initialize\<close> is not read.
\<close>

datatype connect_outcome = ConnectRaises string | ConnectSucceeds

definition connect_session ::
  "DebugpyClient \<Rightarrow> string \<Rightarrow> connect_outcome \<Rightarrow> exchange \<Rightarrow> (DebugpyClient \<times> bool) option"
where
  "connect_session c sid conn x =
     (case sessions c sid of
        None \<Rightarrow> Some (c, False)
      | Some session \<Rightarrow>
          (case conn of
             ConnectRaises e \<Rightarrow>
               Some (c\<lparr>sessions := (sessions c)
                         (sid \<mapsto> session\<lparr>status := ''connection_failed: '' @ e\<rparr>)\<rparr>, False)
           | ConnectSucceeds \<Rightarrow>
               (let c1 = c\<lparr>connections := (connections c)(sid \<mapsto> (host session, port session))\<rparr>
                in case send_request c1 sid (asc ''initialize'') initialize_arguments x of
                     None \<Rightarrow> None
                   | Some (c2, response) \<Rightarrow>
                       Some (c2\<lparr>sessions := (sessions c2)
                                  (sid \<mapsto> session\<lparr>is_connected := True,
                                                   status := ''connected''\<rparr>)\<rparr>, True))))"

text \<open>\<open>disconnect_session\<close>; \<open>close_ok\<close> is false when \<open>socket.close\<close> raises.\<close>

definition disconnect_session :: "DebugpyClient \<Rightarrow> string \<Rightarrow> bool \<Rightarrow> DebugpyClient \<times> bool" where
  "disconnect_session c sid close_ok =
     (case sessions c sid of
        None \<Rightarrow> (c, False)
      | Some session \<Rightarrow>
          if connections c sid \<noteq> None \<and> \<not> close_ok then (c, False)
          else
            (let c1 = c\<lparr>connections := (connections c)(sid := None)\<rparr>
             in (c1\<lparr>sessions := (sessions c1)
                       (sid \<mapsto> session\<lparr>is_connected := False, status := ''disconnected''\<rparr>)\<rparr>,
                 True)))"

text \<open>
  \<open>set_breakpoint\<close>. The identifier is the length of the session's list plus one; the
  request names the one new breakpoint. An exception inside the \<open>try\<close> (a missing list,
  a reply that is no dict) leads to \<open>return None\<close>.
\<close>

definition set_breakpoints_arguments :: "pystr \<Rightarrow> json list \<Rightarrow> json" where
  "set_breakpoints_arguments fp bps =
     JDict [(asc ''source'', JDict [(asc ''path'', JStr fp)]), (asc ''breakpoints'', JList bps)]"

definition breakpoint_json :: "int \<Rightarrow> pystr option \<Rightarrow> json" where
  "breakpoint_json ln cond =
     JDict [(asc ''line'', JInt ln),
            (asc ''condition'', (case cond of None \<Rightarrow> JNull | Some e \<Rightarrow> JStr e))]"

definition set_breakpoint ::
  "DebugpyClient \<Rightarrow> string \<Rightarrow> pystr \<Rightarrow> int \<Rightarrow> pystr option \<Rightarrow> exchange
     \<Rightarrow> (DebugpyClient \<times> Breakpoint option) option"
where
  "set_breakpoint c sid fp ln cond x =
     (case sessions c sid of
        None \<Rightarrow> Some (c, None)
      | Some session \<Rightarrow>
          if \<not> is_connected session then Some (c, None)
          else
            (case breakpoints c sid of
               None \<Rightarrow> Some (c, None)
             | Some bps \<Rightarrow>
                 (let bid = int (length bps) + 1 in
                    case send_request c sid (asc ''setBreakpoints'')
                           (set_breakpoints_arguments fp [breakpoint_json ln cond]) x of
                      None \<Rightarrow> None
                    | Some (c1, response) \<Rightarrow>
                        (case response_ok response of
                           Some True \<Rightarrow>
                             (let bp = \<lparr>breakpoint_id = bid, file_path = fp, line_number = ln,
                                        is_enabled = True, condition = cond, hit_count = 0\<rparr>
                              in Some (c1\<lparr>breakpoints := (breakpoints c1)(sid \<mapsto> bps @ [bp])\<rparr>,
                                       Some bp))
                         | _ \<Rightarrow> Some (c1, None)))))"

text \<open>
  \<open>clear_breakpoint\<close>. The loop stops at the first breakpoint of the list that carries
  the identifier: it sends \<open>setBreakpoints\<close> for that breakpoint's file with the empty
  list, pops the entry and returns \<open>True\<close>. \<open>_send_request\<close> never raises, so the
  \<open>except\<close> branch, after which the loop would go on, is never entered.
\<close>

fun find_breakpoint :: "Breakpoint list \<Rightarrow> int \<Rightarrow> nat \<Rightarrow> (nat \<times> Breakpoint) option" where
  "find_breakpoint [] bid i = None"
| "find_breakpoint (bp # bps) bid i =
     (if breakpoint_id bp = bid then Some (i, bp) else find_breakpoint bps bid (i + 1))"

definition list_pop :: "'a list \<Rightarrow> nat \<Rightarrow> 'a list" where
  "list_pop xs i = take i xs @ drop (Suc i) xs"

definition clear_breakpoint ::
  "DebugpyClient \<Rightarrow> string \<Rightarrow> int \<Rightarrow> exchange \<Rightarrow> (DebugpyClient \<times> bool) option"
where
  "clear_breakpoint c sid bid x =
     (case breakpoints c sid of
        None \<Rightarrow> Some (c, False)
      | Some bps \<Rightarrow>
          (case find_breakpoint bps bid 0 of
             None \<Rightarrow> Some (c, False)
           | Some (i, bp) \<Rightarrow>
               (case send_request c sid (asc ''setBreakpoints'')
                       (set_breakpoints_arguments (file_path bp) []) x of
                  None \<Rightarrow> None
                | Some (c1, response) \<Rightarrow>
                    Some (c1\<lparr>breakpoints := (breakpoints c1)(sid \<mapsto> list_pop bps i)\<rparr>, True))))"

definition list_breakpoints :: "DebugpyClient \<Rightarrow> string \<Rightarrow> Breakpoint list" where
  "list_breakpoints c sid = (case breakpoints c sid of None \<Rightarrow> [] | Some bps \<Rightarrow> bps)"

definition get_session :: "DebugpyClient \<Rightarrow> string \<Rightarrow> DebugSession option" where
  "get_session c sid = sessions c sid"

text \<open>
  The operations of the registry as one datatype, each with what the environment did
  during the call. \<open>Request\<close> is one \<open>_send_request\<close> as the stepping and inspection
  methods (\<open>continue_execution\<close>, \<open>step_over\<close>, \<open>get_stack_trace\<close>, \<dots>) issue it: they
  read and write no other attribute of the client. \<open>run\<close> is a sequence of calls made
  one after the other; \<open>None\<close> when one of them never returns.
\<close>

datatype operation =
    CreateSession string int string
  | ConnectSession string connect_outcome exchange
  | DisconnectSession string bool
  | SetBreakpoint string pystr int "pystr option" exchange
  | ClearBreakpoint string int exchange
  | Request string pystr json exchange

fun perform :: "DebugpyClient \<Rightarrow> operation \<Rightarrow> DebugpyClient option" where
  "perform c (CreateSession h p uuid) = Some (fst (create_session c h p uuid))"
| "perform c (ConnectSession sid conn x) = map_option fst (connect_session c sid conn x)"
| "perform c (DisconnectSession sid close_ok) = Some (fst (disconnect_session c sid close_ok))"
| "perform c (SetBreakpoint sid fp ln cond x) = map_option fst (set_breakpoint c sid fp ln cond x)"
| "perform c (ClearBreakpoint sid bid x) = map_option fst (clear_breakpoint c sid bid x)"
| "perform c (Request sid command arguments x) =
     map_option fst (send_request c sid command arguments x)"

fun run :: "DebugpyClient \<Rightarrow> operation list \<Rightarrow> DebugpyClient option" where
  "run c [] = Some c"
| "run c (operation # rest) =
     (case perform c operation of None \<Rightarrow> None | Some c' \<Rightarrow> run c' rest)"

text \<open>The session identifiers an operation adds to the registry.\<close>

fun created :: "operation \<Rightarrow> string set" where
  "created (CreateSession h p uuid) = {uuid}"
| "created _ = {}"

subsection \<open>Replies and a session with two breakpoints\<close>

text \<open>
  A reply that reports success, one that reports failure, and the calls that create a
  session, connect it and set two breakpoints in the same file, each answered with
  success.
\<close>

definition success_reply :: json where
  "success_reply = JDict [(asc ''type'', JStr (asc ''response'')), (asc ''success'', JBool True)]"

definition failure_reply :: json where
  "failure_reply =
     JDict [(asc ''type'', JStr (asc ''response'')), (asc ''success'', JBool False),
            (asc ''message'', JStr (asc ''refused''))]"

definition two_breakpoints :: "operation list" where
  "two_breakpoints =
     [CreateSession ''localhost'' 5678 ''s'',
      ConnectSession ''s'' ConnectSucceeds (ReadReturns (Some success_reply)),
      SetBreakpoint ''s'' (asc ''a.py'') 10 None (ReadReturns (Some success_reply)),
      SetBreakpoint ''s'' (asc ''a.py'') 20 None (ReadReturns (Some success_reply))]"

section \<open>The protocol client: \<open>DAPClient\<close>\<close>

text \<open>
  What the client logs, and what it does to its socket and its receive thread, are kept
  as two lists so that a theorem can say what a call sent and what it reported.
\<close>

datatype log_entry =
    TimeoutWaiting pystr
  | ErrorSending pystr
  | FailedToConnect
  | ErrorInReceiveLoop
  | FailedToParse
  | DapEvent json json

datatype effect =
    SocketConnect string int
  | SocketSend bytes
  | SocketClose
  | ThreadStart
  | ThreadJoin nat

text \<open>
  The attributes of \<open>DAPClient.__init__\<close>. A waiter is the \<open>threading.Event\<close> stored
  under the request's sequence number, represented by its flag. \<open>receive_thread\<close> is
  \<open>None\<close> before the thread is created and then says whether it is alive. A callback is
  a handle; \<open>callback_calls\<close> lists the calls made, each with its argument. The lock has no
  field: the two statements it guards are one step.
\<close>

record DAPClient =
  socket :: "(string \<times> int) option"
  dap_sequence_number :: int
  pending_requests :: "int \<rightharpoonup> bool"
  responses :: "int \<rightharpoonup> json"
  event_callbacks :: "pystr \<rightharpoonup> nat"
  dap_is_connected :: bool
  receive_thread :: "bool option"
  callback_calls :: "(nat \<times> json) list"
  effects :: "effect list"
  log :: "log_entry list"

definition new_dap_client :: DAPClient where
  "new_dap_client =
     \<lparr>socket = None, dap_sequence_number = 1, pending_requests = Map.empty,
      responses = Map.empty, event_callbacks = Map.empty, dap_is_connected = False,
      receive_thread = None, callback_calls = [], effects = [], log = []\<rparr>"

subsection \<open>\<open>_handle_message\<close>\<close>

text \<open>
  How a decoded value looks a key up in a dict keyed by integers: an \<open>int\<close> by its
  value, \<open>True\<close> and \<open>False\<close> as 1 and 0, \<open>None\<close> and a string as a key that is not
  there, and a list or a dict raises \<open>TypeError\<close> (unhashable).
\<close>

datatype dict_key = Unhashable | NoIntKey | IntKey int

fun int_key :: "json \<Rightarrow> dict_key" where
  "int_key (JInt n) = IntKey n"
| "int_key (JBool b) = IntKey (if b then 1 else 0)"
| "int_key JNull = NoIntKey"
| "int_key (JStr s) = NoIntKey"
| "int_key (JList xs) = Unhashable"
| "int_key (JDict kvs) = Unhashable"

definition dict_get :: "(pystr \<times> json) list \<Rightarrow> string \<Rightarrow> json" where
  "dict_get kvs name = (case map_of kvs (asc name) of None \<Rightarrow> JNull | Some v \<Rightarrow> v)"

definition logged_events :: "json list" where
  "logged_events =
     [JStr (asc ''stopped''), JStr (asc ''continued''), JStr (asc ''terminated''),
      JStr (asc ''exited'')]"

text \<open>
  \<open>None\<close> is an exception leaving \<open>_handle_message\<close>: the message is no dict, or the
  value looked up in a dict is unhashable. Each is raised before anything is written.
  A callback is taken to return.
\<close>

definition handle_response :: "DAPClient \<Rightarrow> json \<Rightarrow> (pystr \<times> json) list \<Rightarrow> DAPClient option" where
  "handle_response c message kvs =
     (case int_key (dict_get kvs ''request_seq'') of
        Unhashable \<Rightarrow> None
      | NoIntKey \<Rightarrow> Some c
      | IntKey seq \<Rightarrow>
          if seq \<in> dom (pending_requests c) then
            Some (c\<lparr>responses := (responses c)(seq \<mapsto> message),
                    pending_requests := (pending_requests c)(seq \<mapsto> True)\<rparr>)
          else Some c)"

definition handle_event :: "DAPClient \<Rightarrow> (pystr \<times> json) list \<Rightarrow> DAPClient option" where
  "handle_event c kvs =
     (let event = dict_get kvs ''event'';
          body = (case map_of kvs (asc ''body'') of None \<Rightarrow> JDict [] | Some b \<Rightarrow> b)
      in case event of
           JList xs \<Rightarrow> None
         | JDict d \<Rightarrow> None
         | _ \<Rightarrow>
             (let c1 = (case event of
                          JStr name \<Rightarrow>
                            (case event_callbacks c name of
                               None \<Rightarrow> c
                             | Some cb \<Rightarrow> c\<lparr>callback_calls := callback_calls c @ [(cb, body)]\<rparr>)
                        | _ \<Rightarrow> c)
              in Some (if event \<in> set logged_events
                       then c1\<lparr>log := log c1 @ [DapEvent event body]\<rparr> else c1)))"

definition handle_message :: "DAPClient \<Rightarrow> json \<Rightarrow> DAPClient option" where
  "handle_message c message =
     (case message of
        JDict kvs \<Rightarrow>
          (let msg_type = dict_get kvs ''type'' in
             if msg_type = JStr (asc ''response'') then handle_response c message kvs
             else if msg_type = JStr (asc ''event'') then handle_event c kvs
             else Some c)
      | _ \<Rightarrow> None)"

definition on_event :: "DAPClient \<Rightarrow> pystr \<Rightarrow> nat \<Rightarrow> DAPClient" where
  "on_event c event_name callback = c\<lparr>event_callbacks := (event_callbacks c)(event_name \<mapsto> callback)\<rparr>"

subsection \<open>\<open>_receive_loop\<close>\<close>

text \<open>
  What one pass of the loop meets: \<open>recv\<close> returns data and the inner loop cuts these
  complete bodies out of the buffer (\<open>None\<close> for a body \<open>json.loads\<close> refuses, which is
  logged and dropped); \<open>recv\<close> returns no data; or an exception reaches the outer
  handler. The cutting of frames out of the buffer is not modelled further. The loop
  ends on the last two, on an exception leaving \<open>_handle_message\<close>, and when its guard
  fails; the statements after the loop are none, so leaving it only ends the thread.
  An empty list is a loop still blocked in \<open>recv\<close>.
\<close>

datatype received = Frames "json option list" | Closed | RecvRaises

fun handle_frames :: "DAPClient \<Rightarrow> json option list \<Rightarrow> DAPClient \<times> bool" where
  "handle_frames c [] = (c, False)"
| "handle_frames c (None # fs) = handle_frames (c\<lparr>log := log c @ [FailedToParse]\<rparr>) fs"
| "handle_frames c (Some m # fs) =
     (case handle_message c m of None \<Rightarrow> (c, True) | Some c' \<Rightarrow> handle_frames c' fs)"

definition loop_error :: "DAPClient \<Rightarrow> DAPClient" where
  "loop_error c = (if dap_is_connected c then c\<lparr>log := log c @ [ErrorInReceiveLoop]\<rparr> else c)"

definition thread_exit :: "DAPClient \<Rightarrow> DAPClient" where
  "thread_exit c = c\<lparr>receive_thread := Some False\<rparr>"

fun receive_loop :: "DAPClient \<Rightarrow> received list \<Rightarrow> DAPClient" where
  "receive_loop c [] = c"
| "receive_loop c (r # rs) =
     (if \<not> (dap_is_connected c \<and> socket c \<noteq> None) then thread_exit c
      else (case r of
              Closed \<Rightarrow> thread_exit c
            | RecvRaises \<Rightarrow> thread_exit (loop_error c)
            | Frames fs \<Rightarrow>
                (case handle_frames c fs of
                   (c', True) \<Rightarrow> thread_exit (loop_error c')
                 | (c', False) \<Rightarrow> receive_loop c' rs)))"

subsection \<open>\<open>_send_request\<close>, statement by statement\<close>

text \<open>
  A call of \<open>_send_request\<close> runs on its caller's thread while the receive thread and
  other callers run too, so the call is cut where it reads or writes the client: the
  guard and the allocation of the sequence number under the lock (\<open>begin_request\<close>),
  the registration of the waiter, the send, the return of \<open>event.wait(timeout=10)\<close>,
  \<open>responses.pop\<close>, and \<open>pending_requests.pop\<close> in the \<open>finally\<close> clause. A \<open>call\<close> is
  what the thread holds between two of them.
\<close>

datatype pc = AtRegister | AtSend | AtWait | AtTake | AtFinally | Returned

record call =
  call_seq :: int
  call_command :: pystr
  call_arguments :: json
  call_pc :: pc
  call_result :: "json option"

definition begin_request :: "DAPClient \<Rightarrow> pystr \<Rightarrow> json \<Rightarrow> DAPClient \<times> call option" where
  "begin_request c command arguments =
     (if \<not> dap_is_connected c \<or> socket c = None then (c, None)
      else (c\<lparr>dap_sequence_number := dap_sequence_number c + 1\<rparr>,
            Some \<lparr>call_seq = dap_sequence_number c, call_command = command,
                  call_arguments = arguments, call_pc = AtRegister, call_result = None\<rparr>))"

definition register_waiter :: "DAPClient \<Rightarrow> call \<Rightarrow> DAPClient \<times> call" where
  "register_waiter c k =
     (c\<lparr>pending_requests := (pending_requests c)(call_seq k \<mapsto> False)\<rparr>, k\<lparr>call_pc := AtSend\<rparr>)"

text \<open>\<open>send_ok\<close> is false when \<open>socket.send\<close> raises.\<close>

definition socket_send :: "DAPClient \<Rightarrow> call \<Rightarrow> bool \<Rightarrow> DAPClient \<times> call" where
  "socket_send c k send_ok =
     (case (if socket c = None \<or> \<not> send_ok then None
            else dap_frame (request_json (call_seq k) (call_command k) (call_arguments k))) of
        None \<Rightarrow> (c\<lparr>log := log c @ [ErrorSending (call_command k)]\<rparr>, k\<lparr>call_pc := AtFinally\<rparr>)
      | Some frame \<Rightarrow> (c\<lparr>effects := effects c @ [SocketSend frame]\<rparr>, k\<lparr>call_pc := AtWait\<rparr>))"

text \<open>
  The moment \<open>event.wait(timeout=10)\<close> returns: with \<open>True\<close> when the flag is set, with
  \<open>False\<close> when the ten seconds have passed and it is not.
\<close>

definition wait_event :: "DAPClient \<Rightarrow> call \<Rightarrow> DAPClient \<times> call" where
  "wait_event c k =
     (if pending_requests c (call_seq k) = Some True then (c, k\<lparr>call_pc := AtTake\<rparr>)
      else (c\<lparr>log := log c @ [TimeoutWaiting (call_command k)]\<rparr>, k\<lparr>call_pc := AtFinally\<rparr>))"

definition take_response :: "DAPClient \<Rightarrow> call \<Rightarrow> DAPClient \<times> call" where
  "take_response c k =
     (c\<lparr>responses := (responses c)(call_seq k := None)\<rparr>,
      k\<lparr>call_result := responses c (call_seq k), call_pc := AtFinally\<rparr>)"

definition finally_pop :: "DAPClient \<Rightarrow> call \<Rightarrow> DAPClient \<times> call" where
  "finally_pop c k =
     (c\<lparr>pending_requests := (pending_requests c)(call_seq k := None)\<rparr>, k\<lparr>call_pc := Returned\<rparr>)"

definition call_step :: "DAPClient \<Rightarrow> call \<Rightarrow> bool \<Rightarrow> DAPClient \<times> call" where
  "call_step c k send_ok =
     (case call_pc k of
        AtRegister \<Rightarrow> register_waiter c k
      | AtSend \<Rightarrow> socket_send c k send_ok
      | AtWait \<Rightarrow> wait_event c k
      | AtTake \<Rightarrow> take_response c k
      | AtFinally \<Rightarrow> finally_pop c k
      | Returned \<Rightarrow> (c, k))"

text \<open>
  One call from its first statement to its return, with nothing else running but the
  receive loop, which, when its thread is alive, meets \<open>arrivals\<close> while the caller
  waits.
\<close>

definition while_waiting :: "DAPClient \<Rightarrow> received list \<Rightarrow> DAPClient" where
  "while_waiting c arrivals = (if receive_thread c = Some True then receive_loop c arrivals else c)"

definition dap_send_request ::
  "DAPClient \<Rightarrow> pystr \<Rightarrow> json \<Rightarrow> bool \<Rightarrow> received list \<Rightarrow> DAPClient \<times> json option"
where
  "dap_send_request c command arguments send_ok arrivals =
     (case begin_request c command arguments of
        (c0, None) \<Rightarrow> (c0, None)
      | (c0, Some k0) \<Rightarrow>
          (let (c1, k1) = register_waiter c0 k0;
               (c2, k2) = socket_send c1 k1 send_ok
           in if call_pc k2 = AtWait then
                (let (c3, k3) = wait_event (while_waiting c2 arrivals) k2;
                     (c4, k4) = (if call_pc k3 = AtTake then take_response c3 k3 else (c3, k3));
                     (c5, k5) = finally_pop c4 k4
                 in (c5, call_result k5))
              else (let (c3, k3) = finally_pop c2 k2 in (c3, call_result k3))))"

subsection \<open>The client with its callers\<close>

text \<open>
  The client together with every call of \<open>_send_request\<close> made so far. A step is the
  start of a call, the next statement of a call that has not returned, a message
  handled by the receive loop (one \<open>_handle_message\<close>, taken as a whole), or a write by
  another method (\<open>connect\<close>, \<open>disconnect\<close>, \<open>on_event\<close>, the end of the receive loop),
  none of which touches the sequence counter or the two tables of the correlator other
  than through a call of \<open>_send_request\<close>. A call that waits may take its next step with
  the flag clear, which is the timeout, or with the flag set.
\<close>

inductive step :: "DAPClient \<times> call list \<Rightarrow> DAPClient \<times> call list \<Rightarrow> bool" where
  Begin: "begin_request c command arguments = (c', Some k) \<Longrightarrow> step (c, ks) (c', ks @ [k])"
| Call: "i < length ks \<Longrightarrow> call_pc (ks ! i) \<noteq> Returned \<Longrightarrow> call_step c (ks ! i) send_ok = (c', k')
         \<Longrightarrow> step (c, ks) (c', ks[i := k'])"
| Deliver: "handle_message c m = Some c' \<Longrightarrow> step (c, ks) (c', ks)"
| Other: "dap_sequence_number c' = dap_sequence_number c \<Longrightarrow>
          pending_requests c' = pending_requests c \<Longrightarrow> responses c' = responses c
          \<Longrightarrow> step (c, ks) (c', ks)"







text \<open>
  A message that \<open>_handle_message\<close> takes for the response to the request numbered
  \<open>seq\<close>, and the bodies the receive loop decodes out of what it meets.
\<close>

definition answers :: "json \<Rightarrow> int \<Rightarrow> bool" where
  "answers m seq =
     (case m of
        JDict kvs \<Rightarrow>
          dict_get kvs ''type'' = JStr (asc ''response'') \<and>
          int_key (dict_get kvs ''request_seq'') = IntKey seq
      | _ \<Rightarrow> False)"

fun decoded :: "received list \<Rightarrow> json list" where
  "decoded [] = []"
| "decoded (Frames fs # rs) = List.map_filter (\<lambda>f. f) fs @ decoded rs"
| "decoded (r # rs) = decoded rs"

subsection \<open>\<open>connect\<close> and \<open>disconnect\<close>\<close>

definition dap_initialize_arguments :: json where
  "dap_initialize_arguments =
     JDict [(asc ''clientID'', JStr (asc ''debugpy-mcp-server'')),
            (asc ''clientName'', JStr (asc ''Debugpy MCP Server'')),
            (asc ''adapterID'', JStr (asc ''python'')),
            (asc ''pathFormat'', JStr (asc ''path'')),
            (asc ''linesStartAt1'', JBool True),
            (asc ''columnsStartAt1'', JBool True),
            (asc ''supportsVariableType'', JBool True),
            (asc ''supportsVariablePaging'', JBool True),
            (asc ''supportsRunInTerminalRequest'', JBool False),
            (asc ''supportsMemoryReferences'', JBool False),
            (asc ''supportsProgressReporting'', JBool False),
            (asc ''supportsInvalidatedEvent'', JBool False)]"

text \<open>
  \<open>config_response and config_response.get("success", True)\<close> as a truth value;
  \<open>None\<close> is the \<open>AttributeError\<close> of a truthy value that is no dict.
\<close>

definition config_ok :: "json option \<Rightarrow> bool option" where
  "config_ok response =
     (case response of
        None \<Rightarrow> Some False
      | Some r \<Rightarrow>
          if \<not> truthy r then Some False
          else (case r of
                  JDict kvs \<Rightarrow>
                    Some (case map_of kvs (asc ''success'') of
                            None \<Rightarrow> True
                          | Some v \<Rightarrow> truthy v)
                | _ \<Rightarrow> None))"

text \<open>
  \<open>connect\<close>. \<open>connect_ok\<close> is false when \<open>socket.connect\<close> raises; \<open>e1\<close> and \<open>e2\<close> say,
  for the two requests, whether the send succeeds and what the receive loop handles
  while the caller waits. The result is the truth value of what \<open>connect\<close> returns.
\<close>

definition connect_failed :: "DAPClient \<Rightarrow> DAPClient \<times> bool" where
  "connect_failed c = (c\<lparr>dap_is_connected := False, log := log c @ [FailedToConnect]\<rparr>, False)"

definition dap_connect ::
  "DAPClient \<Rightarrow> string \<Rightarrow> int \<Rightarrow> bool \<Rightarrow> bool \<times> received list \<Rightarrow> bool \<times> received list
     \<Rightarrow> DAPClient \<times> bool"
where
  "dap_connect c h p connect_ok e1 e2 =
     (let c0 = c\<lparr>socket := Some (h, p)\<rparr> in
        if \<not> connect_ok then connect_failed c0
        else
          (let c1 = c0\<lparr>dap_is_connected := True, receive_thread := Some True,
                       effects := effects c0 @ [SocketConnect h p, ThreadStart]\<rparr>;
               (c2, response) =
                 dap_send_request c1 (asc ''initialize'') dap_initialize_arguments (fst e1) (snd e1)
           in case response_ok response of
                None \<Rightarrow> connect_failed c2
              | Some False \<Rightarrow> (c2, False)
              | Some True \<Rightarrow>
                  (let (c3, config_response) =
                         dap_send_request c2 (asc ''configurationDone'') (JDict []) (fst e2) (snd e2)
                   in case config_ok config_response of
                        None \<Rightarrow> connect_failed c3
                      | Some b \<Rightarrow> (c3, b))))"

text \<open>
  \<open>disconnect\<close>. The flag is cleared first; then, when there is a socket, the
  \<open>disconnect\<close> request goes through \<open>_send_request\<close>, the socket is closed and the
  attribute set to \<open>None\<close> (\<open>close_ok\<close> false: \<open>close\<close> raises and the bare \<open>except\<close>
  swallows it); last, a live receive thread is joined for at most one second.
\<close>

definition dap_disconnect :: "DAPClient \<Rightarrow> bool \<Rightarrow> received list \<Rightarrow> bool \<Rightarrow> DAPClient" where
  "dap_disconnect c send_ok arrivals close_ok =
     (let c1 = c\<lparr>dap_is_connected := False\<rparr>;
          c2 = (case socket c1 of
                  None \<Rightarrow> c1
                | Some s \<Rightarrow>
                    (let (c', response) =
                           dap_send_request c1 (asc ''disconnect'')
                             (JDict [(asc ''restart'', JBool False)]) send_ok arrivals
                     in if close_ok then c'\<lparr>effects := effects c' @ [SocketClose], socket := None\<rparr>
                        else c'))
      in if receive_thread c2 = Some True
         then c2\<lparr>effects := effects c2 @ [ThreadJoin 1]\<rparr> else c2)"

subsection \<open>A connected client and one request\<close>

text \<open>
  A client as \<open>connect\<close> leaves it, the call of \<open>_send_request("threads", {})\<close> on it
  (the first request, numbered 1) at a given statement, a response to the request
  numbered \<open>seq\<close>, and the client while that call waits.
\<close>

definition threads_call :: "pc \<Rightarrow> call" where
  "threads_call p =
     \<lparr>call_seq = 1, call_command = asc ''threads'', call_arguments = JDict [],
      call_pc = p, call_result = None\<rparr>"

definition connected_client :: DAPClient where
  "connected_client =
     new_dap_client\<lparr>socket := Some (''localhost'', 5678), dap_is_connected := True,
                      receive_thread := Some True\<rparr>"


definition waiting_client :: DAPClient where
  "waiting_client = connected_client\<lparr>dap_sequence_number := 2, pending_requests := [1 \<mapsto> False]\<rparr>"

section \<open>Frames\<close>

lemma is_ascii_simps [simp]:
  "is_ascii []" "is_ascii (c # cs) = (c < 128 \<and> is_ascii cs)"
  "is_ascii (xs @ ys) = (is_ascii xs \<and> is_ascii ys)"
  by (simp_all add: is_ascii_def)

lemma is_ascii_asc: "is_ascii (asc s) = list_all (\<lambda>ch. (of_char ch :: nat) < 128) s"
  by (induction s) (simp_all add: asc_def)

lemma is_ascii_digits: "is_ascii (digits n)"
proof (induction n rule: digits.induct)
  case (1 n)
  show ?case
  proof (cases "n < 10")
    case True
    then show ?thesis by (subst digits.simps) simp
  next
    case False
    have "n mod 10 < 10" by simp
    then have "48 + n mod 10 < 128" by linarith
    with False 1 show ?thesis by (subst digits.simps) simp
  qed
qed

lemma is_ascii_str_int: "is_ascii (str_int i)"
  by (simp add: str_int_def is_ascii_digits)

lemma hexdigit_ascii: "d < 16 \<Longrightarrow> hexdigit d < 128"
  by (simp add: hexdigit_def)

lemma is_ascii_hex4: "is_ascii (hex4 n)"
  by (simp add: hex4_def hexdigit_ascii)

lemma is_ascii_escape_char: "is_ascii (escape_char c)"
  by (simp add: escape_char_def Let_def is_ascii_hex4)

lemma is_ascii_concat: "(\<And>x. x \<in> set xs \<Longrightarrow> is_ascii x) \<Longrightarrow> is_ascii (concat xs)"
  by (induction xs) simp_all

lemma is_ascii_basestring: "is_ascii (encode_basestring_ascii s)"
  by (induction s) (simp_all add: encode_basestring_ascii_def is_ascii_escape_char)

lemma is_ascii_join_with:
  "is_ascii sep \<Longrightarrow> (\<And>x. x \<in> set xs \<Longrightarrow> is_ascii x) \<Longrightarrow> is_ascii (join_with sep xs)"
  by (induction sep xs rule: join_with.induct) simp_all

lemma is_ascii_json_dumps: "is_ascii (json_dumps j)"
proof (induction j)
  case (JList xs)
  then show ?case
    by (auto simp: is_ascii_asc intro!: is_ascii_join_with)
next
  case (JDict kvs)
  have "is_ascii (encode_basestring_ascii k @ asc '': '' @ json_dumps v)" if "(k, v) \<in> set kvs" for k v
    using that JDict [of "(k, v)" v] by (simp add: is_ascii_basestring is_ascii_asc)
  then show ?case
    by (auto simp: is_ascii_asc intro!: is_ascii_join_with)
qed (simp_all add: is_ascii_asc is_ascii_str_int is_ascii_basestring)

lemma utf8_encode_ascii: "is_ascii s \<Longrightarrow> utf8_encode s = Some s"
  by (induction s) (simp_all add: utf8_char_def)

lemma is_ascii_frame_header: "is_ascii (frame_header n)"
  by (simp add: frame_header_def is_ascii_asc is_ascii_digits)

lemma dap_frame_eq: "dap_frame request = Some (frame_header (length (json_dumps request)) @ json_dumps request)"
  by (simp add: dap_frame_def Let_def utf8_encode_ascii is_ascii_frame_header is_ascii_json_dumps)

lemma debugpy_frame_eq: "debugpy_frame request = Some (frame_header (length (json_dumps request)) @ json_dumps request)"
  by (simp add: debugpy_frame_def Let_def utf8_encode_ascii is_ascii_frame_header is_ascii_json_dumps)




section \<open>The registry\<close>

lemma send_request_unconnected: "connections c sid = None \<Longrightarrow> send_request c sid command arguments x = Some (c, None)"
  by (simp add: send_request_def)

lemma send_request_maps:
  "send_request c sid command arguments x = Some (c', r) \<Longrightarrow>
     sessions c' = sessions c \<and> breakpoints c' = breakpoints c \<and> connections c' = connections c"
  by (auto simp: send_request_def Let_def debugpy_frame_eq split: if_splits exchange.splits)

lemma perform_sessions_dom:
  assumes "perform c operation = Some c'"
  shows "dom (sessions c') = dom (sessions c) \<union> created operation"
proof (cases operation)
  case (CreateSession h p uuid)
  with assms show ?thesis by (auto simp: create_session_def Let_def)
next
  case (ConnectSession sid' conn x)
  with assms show ?thesis
    by (auto simp: connect_session_def Let_def split: option.splits connect_outcome.splits if_splits
             dest!: send_request_maps)
next
  case (DisconnectSession sid' close_ok)
  with assms show ?thesis
    by (auto simp: disconnect_session_def Let_def split: option.splits if_splits)
next
  case (SetBreakpoint sid' fp ln cond x)
  with assms show ?thesis
    by (auto simp: set_breakpoint_def Let_def split: option.splits if_splits bool.splits
             dest!: send_request_maps)
next
  case (ClearBreakpoint sid' bid x)
  with assms show ?thesis
    by (auto simp: clear_breakpoint_def Let_def split: option.splits if_splits prod.splits
             dest!: send_request_maps)
next
  case (Request sid' command arguments x)
  with assms show ?thesis by (auto dest!: send_request_maps)
qed

lemma perform_breakpoints_dom:
  assumes "perform c operation = Some c'"
  shows "dom (breakpoints c') = dom (breakpoints c) \<union> created operation"
proof (cases operation)
  case (CreateSession h p uuid)
  with assms show ?thesis by (auto simp: create_session_def Let_def)
next
  case (ConnectSession sid' conn x)
  with assms show ?thesis
    by (auto simp: connect_session_def Let_def split: option.splits connect_outcome.splits if_splits
             dest!: send_request_maps)
next
  case (DisconnectSession sid' close_ok)
  with assms show ?thesis
    by (auto simp: disconnect_session_def Let_def split: option.splits if_splits)
next
  case (SetBreakpoint sid' fp ln cond x)
  with assms show ?thesis
    by (auto simp: set_breakpoint_def Let_def split: option.splits if_splits bool.splits
             dest!: send_request_maps)
next
  case (ClearBreakpoint sid' bid x)
  with assms show ?thesis
    by (auto simp: clear_breakpoint_def Let_def split: option.splits if_splits prod.splits
             dest!: send_request_maps)
next
  case (Request sid' command arguments x)
  with assms show ?thesis by (auto dest!: send_request_maps)
qed

lemma run_domains:
  "run c ops = Some c' \<Longrightarrow> dom (sessions c) = dom (breakpoints c)
     \<Longrightarrow> dom (sessions c') = dom (breakpoints c')"
proof (induction ops arbitrary: c)
  case Nil
  then show ?case by simp
next
  case (Cons operation ops)
  from Cons.prems(1) obtain c1 where c1: "perform c operation = Some c1" "run c1 ops = Some c'"
    by (auto split: option.splits)
  have "dom (sessions c1) = dom (breakpoints c1)"
    using perform_sessions_dom [OF c1(1)] perform_breakpoints_dom [OF c1(1)] Cons.prems(2)
    by simp
  with Cons.IH [OF c1(2)] show ?case .
qed

lemma run_new_client_domains:
  "run new_client ops = Some c \<Longrightarrow> dom (sessions c) = dom (breakpoints c)"
  using run_domains [of new_client ops c] by (simp add: new_client_def)

lemma response_ok_success [simp]: "response_ok (Some success_reply) = Some True"
  by (simp add: response_ok_def success_reply_def asc_def)

lemma response_ok_failure [simp]: "response_ok (Some failure_reply) = Some False"
  by (simp add: response_ok_def failure_reply_def asc_def)

lemmas registry_defs =
  create_session_def connect_session_def disconnect_session_def set_breakpoint_def
  clear_breakpoint_def list_breakpoints_def send_request_def new_client_def Let_def
  debugpy_frame_eq list_pop_def

lemma run_two_breakpoints:
  "\<exists>c. run new_client two_breakpoints = Some c \<and>
       map (\<lambda>b. (breakpoint_id b, line_number b)) (list_breakpoints c ''s'') = [(1, 10), (2, 20)] \<and>
       sequence_number c = 4"
  by (simp add: two_breakpoints_def registry_defs)

lemma clear_breakpoint_sends_empty_list:
  assumes "breakpoints c sid = Some bps" and "find_breakpoint bps bid 0 = Some (i, bp)"
    and "connections c sid \<noteq> None"
  shows "clear_breakpoint c sid bid (ReadReturns r) =
           Some (c\<lparr>sequence_number := sequence_number c + 1,
                    wire := wire c @
                      [(sid, the (debugpy_frame (request_json (sequence_number c)
                                (asc ''setBreakpoints'')
                                (set_breakpoints_arguments (file_path bp) []))))],
                    breakpoints := (breakpoints c)(sid \<mapsto> list_pop bps i)\<rparr>, True)"
  using assms by (auto simp: clear_breakpoint_def send_request_def Let_def debugpy_frame_eq)

lemma clear_breakpoint_when_disconnected:
  assumes "breakpoints c sid = Some bps" and "find_breakpoint bps bid 0 = Some (i, bp)"
    and "connections c sid = None"
  shows "clear_breakpoint c sid bid x =
           Some (c\<lparr>breakpoints := (breakpoints c)(sid \<mapsto> list_pop bps i)\<rparr>, True)"
  using assms by (simp add: clear_breakpoint_def send_request_def)

text \<open>
  Claim C1 asks that clearing one of several breakpoints of a file resend the remaining
  ones. The code does not: with breakpoints at lines 10 and 20 of \<open>a.py\<close>, clearing the
  first leaves the one at line 20 in the session's list, and the \<open>setBreakpoints\<close>
  request written to the socket carries the empty list for \<open>a.py\<close>.
\<close>

theorem clear_breakpoint_sends_no_siblings:
  "\<exists>c c'. run new_client two_breakpoints = Some c \<and>
     map (\<lambda>b. (file_path b, line_number b)) (list_breakpoints c ''s'') =
       [(asc ''a.py'', 10), (asc ''a.py'', 20)] \<and>
     clear_breakpoint c ''s'' 1 (ReadReturns (Some success_reply)) = Some (c', True) \<and>
     map (\<lambda>b. (file_path b, line_number b)) (list_breakpoints c' ''s'') = [(asc ''a.py'', 20)] \<and>
     map (\<lambda>(sid, frame). Some frame) (drop (length (wire c)) (wire c')) =
       [debugpy_frame (request_json 4 (asc ''setBreakpoints'')
          (JDict [(asc ''source'', JDict [(asc ''path'', JStr (asc ''a.py''))]),
                  (asc ''breakpoints'', JList [])]))]"
  by (simp add: two_breakpoints_def registry_defs set_breakpoints_arguments_def)

text \<open>
  Claim C2 asks that a failed \<open>initialize\<close> leave the session disconnected and make
  \<open>connect_session\<close> return false. \<open>connect_session\<close> does not read the reply: when the
  adapter answers \<open>initialize\<close> with \<open>success: false\<close>, or the reply cannot be read, it
  marks the session connected and returns \<open>True\<close>.
\<close>

theorem connect_session_ignores_initialize_failure:
  "\<exists>c c'. run new_client [CreateSession ''localhost'' 5678 ''s''] = Some c \<and>
     connect_session c ''s'' ConnectSucceeds (ReadReturns (Some failure_reply)) = Some (c', True) \<and>
     map_option is_connected (sessions c' ''s'') = Some True \<and>
     map_option status (sessions c' ''s'') = Some ''connected'' \<and>
     connect_session c ''s'' ConnectSucceeds (ReadReturns None) =
       connect_session c ''s'' ConnectSucceeds (ReadReturns (Some failure_reply))"
  by (simp add: registry_defs)

text \<open>
  Claim C7, as stated, fails for \<open>list_breakpoints\<close>: for a session identifier that is
  not in the registry it returns the empty list, the value it returns for a session
  just created.
\<close>

theorem list_breakpoints_unknown_session_counterexample:
  "sessions new_client ''unknown'' = None \<and>
   list_breakpoints new_client ''unknown'' = [] \<and>
   list_breakpoints (fst (create_session new_client ''localhost'' 5678 ''known'')) ''known'' =
     list_breakpoints new_client ''unknown''"
  by (simp add: registry_defs)

text \<open>
  Claim C7, amended. In every state the registry reaches, for a session identifier it
  does not hold, \<open>disconnect_session\<close> and \<open>clear_breakpoint\<close> return \<open>False\<close> and
  \<open>set_breakpoint\<close> returns \<open>None\<close>, each leaving the client as it was, and
  \<open>list_breakpoints\<close> returns the empty list; for a session it holds that is not
  connected, \<open>set_breakpoint\<close> returns \<open>None\<close> and leaves the client as it was.
\<close>

theorem unknown_or_disconnected_session:
  assumes "run new_client ops = Some c"
  shows "(sessions c sid = None \<longrightarrow>
            disconnect_session c sid close_ok = (c, False) \<and>
            set_breakpoint c sid fp ln cond x = Some (c, None) \<and>
            clear_breakpoint c sid bid x = Some (c, False) \<and>
            list_breakpoints c sid = []) \<and>
         (\<forall>session. sessions c sid = Some session \<and> \<not> is_connected session \<longrightarrow>
            set_breakpoint c sid fp ln cond x = Some (c, None))"
proof -
  have "dom (sessions c) = dom (breakpoints c)"
    using assms by (rule run_new_client_domains)
  then have "breakpoints c sid = None" if "sessions c sid = None"
    using that by (metis domIff)
  then show ?thesis
    by (simp add: disconnect_session_def set_breakpoint_def clear_breakpoint_def
                  list_breakpoints_def)
qed

theorem unknown_or_disconnected_session_witness:
  "\<exists>c. run new_client [CreateSession ''localhost'' 5678 ''s''] = Some c \<and>
       sessions c ''t'' = None \<and>
       disconnect_session c ''t'' True = (c, False) \<and>
       set_breakpoint c ''t'' (asc ''a.py'') 10 None ReadHangs = Some (c, None) \<and>
       clear_breakpoint c ''t'' 1 ReadHangs = Some (c, False) \<and>
       list_breakpoints c ''t'' = [] \<and>
       map_option is_connected (sessions c ''s'') = Some False \<and>
       set_breakpoint c ''s'' (asc ''a.py'') 10 None ReadHangs = Some (c, None)"
proof -
  obtain c where c: "run new_client [CreateSession ''localhost'' 5678 ''s''] = Some c"
    by simp
  have t: "sessions c ''t'' = None" and s: "map_option is_connected (sessions c ''s'') = Some False"
    using c by (auto simp: registry_defs)
  from s obtain session where session: "sessions c ''s'' = Some session" "\<not> is_connected session"
    by auto
  show ?thesis
    using c t s session
      unknown_or_disconnected_session [OF c, of "''t''" True "asc ''a.py''" 10 None ReadHangs 1]
      unknown_or_disconnected_session [OF c, of "''s''" True "asc ''a.py''" 10 None ReadHangs 1]
    by blast
qed

text \<open>
  Claim C8 asks that no two breakpoints of a session ever share an identifier. The
  identifier is the length of the list plus one: after breakpoints 1 and 2 are set and
  breakpoint 1 is cleared, the next breakpoint is numbered 2 again, and the list holds
  two breakpoints numbered 2.
\<close>

theorem breakpoint_id_reused_after_clear:
  "map_option (\<lambda>c. map (\<lambda>b. (breakpoint_id b, line_number b)) (list_breakpoints c ''s''))
     (run new_client
        (two_breakpoints @
         [ClearBreakpoint ''s'' 1 (ReadReturns (Some success_reply)),
          SetBreakpoint ''s'' (asc ''a.py'') 30 None (ReadReturns (Some success_reply))]))
   = Some [(2, 20), (2, 30)]"
  by (simp add: two_breakpoints_def registry_defs)

text \<open>
  Claim C10. In every state the registry reaches from the empty one, each session in
  \<open>sessions\<close> has an entry in \<open>breakpoints\<close>, and every further operation keeps it so;
  \<open>list_breakpoints\<close> of a session of the registry is the list stored for it;
  \<open>create_session\<close> installs the session and an empty breakpoint list together, so that
  \<open>list_breakpoints\<close> of the new session is empty; \<open>disconnect_session\<close> removes no
  session and changes no breakpoint list.
\<close>

theorem sessions_have_breakpoint_lists:
  assumes "run new_client ops = Some c"
  shows "dom (sessions c) \<subseteq> dom (breakpoints c) \<and>
         (\<forall>operation c'. perform c operation = Some c' \<longrightarrow>
            dom (sessions c') \<subseteq> dom (breakpoints c')) \<and>
         (\<forall>s. sessions c s \<noteq> None \<longrightarrow> breakpoints c s = Some (list_breakpoints c s)) \<and>
         sessions (fst (create_session c h p uuid)) uuid \<noteq> None \<and>
         breakpoints (fst (create_session c h p uuid)) uuid = Some [] \<and>
         list_breakpoints (fst (create_session c h p uuid)) uuid = [] \<and>
         dom (sessions (fst (disconnect_session c sid close_ok))) = dom (sessions c) \<and>
         breakpoints (fst (disconnect_session c sid close_ok)) = breakpoints c"
proof -
  have eq: "dom (sessions c) = dom (breakpoints c)"
    using assms by (rule run_new_client_domains)
  have step: "dom (sessions c') \<subseteq> dom (breakpoints c')" if "perform c operation = Some c'"
    for operation c'
    using perform_sessions_dom [OF that] perform_breakpoints_dom [OF that] eq by simp
  have lists: "breakpoints c s = Some (list_breakpoints c s)" if "sessions c s \<noteq> None" for s
  proof -
    from that eq have "s \<in> dom (breakpoints c)" by (metis domIff)
    then show ?thesis by (auto simp: list_breakpoints_def)
  qed
  have created: "sessions (fst (create_session c h p uuid)) uuid \<noteq> None"
    "breakpoints (fst (create_session c h p uuid)) uuid = Some []"
    "list_breakpoints (fst (create_session c h p uuid)) uuid = []"
    by (simp_all add: create_session_def list_breakpoints_def)
  have disconnected: "dom (sessions (fst (disconnect_session c sid close_ok))) = dom (sessions c)"
    "breakpoints (fst (disconnect_session c sid close_ok)) = breakpoints c"
    by (auto simp: disconnect_session_def split: option.splits if_splits)
  from eq step lists created disconnected show ?thesis by blast
qed

theorem sessions_have_breakpoint_lists_witness:
  "\<exists>c. run new_client
         [CreateSession ''localhost'' 5678 ''s'',
          ConnectSession ''s'' ConnectSucceeds (ReadReturns (Some success_reply)),
          SetBreakpoint ''s'' (asc ''a.py'') 10 None (ReadReturns (Some success_reply)),
          DisconnectSession ''s'' True] = Some c \<and>
       dom (sessions c) \<subseteq> dom (breakpoints c) \<and>
       sessions c ''s'' \<noteq> None \<and>
       breakpoints c ''s'' = Some (list_breakpoints c ''s'') \<and>
       list_breakpoints (fst (create_session c ''localhost'' 5679 ''t'')) ''t'' = [] \<and>
       breakpoints (fst (disconnect_session c ''s'' True)) = breakpoints c"
proof -
  obtain c where c: "run new_client
         [CreateSession ''localhost'' 5678 ''s'',
          ConnectSession ''s'' ConnectSucceeds (ReadReturns (Some success_reply)),
          SetBreakpoint ''s'' (asc ''a.py'') 10 None (ReadReturns (Some success_reply)),
          DisconnectSession ''s'' True] = Some c"
    by (simp add: registry_defs)
  have s: "sessions c ''s'' \<noteq> None"
    using c by (auto simp: registry_defs)
  show ?thesis
    using c s sessions_have_breakpoint_lists [OF c, of "''localhost''" 5679 "''t''" "''s''" True]
    by blast
qed

section \<open>The protocol client\<close>

subsection \<open>Connecting and disconnecting\<close>

lemma dap_connect_without_initialize_success:
  assumes "dap_send_request
             (c\<lparr>socket := Some (h, p), dap_is_connected := True, receive_thread := Some True,
                effects := effects c @ [SocketConnect h p, ThreadStart]\<rparr>)
             (asc ''initialize'') dap_initialize_arguments (fst e1) (snd e1) = (c2, response)"
    and "response_ok response \<noteq> Some True"
  shows "snd (dap_connect c h p True e1 e2) = False \<and>
         effects (fst (dap_connect c h p True e1 e2)) = effects c2 \<and>
         dap_sequence_number (fst (dap_connect c h p True e1 e2)) = dap_sequence_number c2"
proof (cases "response_ok response")
  case None
  with assms(1) show ?thesis
    by (simp add: dap_connect_def Let_def connect_failed_def)
next
  case (Some b)
  with assms(2) have "b = False" by simp
  with Some assms(1) show ?thesis
    by (simp add: dap_connect_def Let_def)
qed

lemma dap_send_request_disconnected:
  "\<not> dap_is_connected c \<Longrightarrow> dap_send_request c command arguments send_ok arrivals = (c, None)"
  by (simp add: dap_send_request_def begin_request_def)

text \<open>
  Claim C9 asks that \<open>disconnect\<close> send a \<open>disconnect\<close> request before it closes the
  socket. It clears \<open>is_connected\<close> first, and \<open>_send_request\<close> returns \<open>None\<close> at its
  guard when the flag is clear: for every client, \<open>disconnect\<close> writes nothing to the
  socket, allocates no sequence number and logs nothing. All it does is close the
  socket, when there is one, and join a live receive thread for at most one second.
\<close>

theorem disconnect_sends_nothing:
  "effects (dap_disconnect c send_ok arrivals close_ok) =
     effects c @ (if socket c \<noteq> None \<and> close_ok then [SocketClose] else []) @
     (if receive_thread c = Some True then [ThreadJoin 1] else []) \<and>
   dap_sequence_number (dap_disconnect c send_ok arrivals close_ok) = dap_sequence_number c \<and>
   log (dap_disconnect c send_ok arrivals close_ok) = log c"
  by (auto simp: dap_disconnect_def Let_def dap_send_request_disconnected split: option.splits)

lemma handle_message_other_waiter:
  "handle_message c m = Some c' \<Longrightarrow> \<not> answers m n \<Longrightarrow> pending_requests c' n = pending_requests c n"
  by (auto simp: handle_message_def handle_response_def handle_event_def answers_def Let_def
           split: json.splits dict_key.splits if_splits option.splits)

lemma handle_frames_other_waiter:
  "handle_frames c fs = (c', b) \<Longrightarrow> \<forall>m\<in>set (List.map_filter (\<lambda>f. f) fs). \<not> answers m n
     \<Longrightarrow> pending_requests c' n = pending_requests c n"
proof (induction c fs arbitrary: c' b rule: handle_frames.induct)
  case (1 c)
  then show ?case by simp
next
  case (2 c fs)
  then show ?case by (simp add: List.map_filter_simps)
next
  case (3 c m fs)
  show ?case
  proof (cases "handle_message c m")
    case None
    with 3 show ?thesis by simp
  next
    case (Some c1)
    with 3 have "pending_requests c' n = pending_requests c1 n"
      by (simp add: List.map_filter_simps)
    moreover from 3 Some have "pending_requests c1 n = pending_requests c n"
      by (auto simp: List.map_filter_simps intro: handle_message_other_waiter)
    ultimately show ?thesis by simp
  qed
qed

lemma receive_loop_other_waiter:
  "\<forall>m\<in>set (decoded rs). \<not> answers m n
     \<Longrightarrow> pending_requests (receive_loop c rs) n = pending_requests c n"
proof (induction c rs rule: receive_loop.induct)
  case (1 c)
  then show ?case by simp
next
  case (2 c r rs)
  show ?case
  proof (cases r)
    case (Frames fs)
    obtain c1 b where h: "handle_frames c fs = (c1, b)" by (cases "handle_frames c fs")
    from 2 Frames have no: "\<forall>m\<in>set (List.map_filter (\<lambda>f. f) fs). \<not> answers m n"
      and rest: "\<forall>m\<in>set (decoded rs). \<not> answers m n" by auto
    have c1: "pending_requests c1 n = pending_requests c n"
      using handle_frames_other_waiter [OF h no] .
    show ?thesis
    proof (cases b)
      case True
      with Frames h c1 show ?thesis by (simp add: thread_exit_def loop_error_def)
    next
      case False
      with 2 Frames h c1 rest show ?thesis by (simp add: thread_exit_def)
    qed
  next
    case Closed
    then show ?thesis by (simp add: thread_exit_def)
  next
    case RecvRaises
    then show ?thesis by (simp add: thread_exit_def loop_error_def)
  qed
qed

lemma while_waiting_other_waiter:
  "\<forall>m\<in>set (decoded rs). \<not> answers m n
     \<Longrightarrow> pending_requests (while_waiting c rs) n = pending_requests c n"
  by (simp add: while_waiting_def receive_loop_other_waiter)

lemma handle_message_late:
  "answers m n \<Longrightarrow> pending_requests c n = None \<Longrightarrow> handle_message c m = Some c"
  by (auto simp: handle_message_def handle_response_def answers_def Let_def split: json.splits)

subsection \<open>Timeouts\<close>

text \<open>
  A call with nothing running between its statements. The request is sent on a
  connected client and, of the messages the receive loop handles until
  \<open>event.wait(timeout=10)\<close> returns, none is a response with the request's sequence
  number. Then the call returns \<open>None\<close>, the last entry it logs is the timeout of its
  command, and its waiter is gone; a response with that sequence number handled after
  the call has returned leaves the client exactly as it was.
\<close>

lemma lone_request_times_out:
  assumes "dap_is_connected c" and "socket c \<noteq> None"
    and "\<forall>m\<in>set (decoded arrivals). \<not> answers m (dap_sequence_number c)"
  shows "snd (dap_send_request c command arguments True arrivals) = None \<and>
         pending_requests (fst (dap_send_request c command arguments True arrivals))
           (dap_sequence_number c) = None \<and>
         log (fst (dap_send_request c command arguments True arrivals)) \<noteq> [] \<and>
         last (log (fst (dap_send_request c command arguments True arrivals))) =
           TimeoutWaiting command \<and>
         (\<forall>m. answers m (dap_sequence_number c) \<longrightarrow>
            handle_message (fst (dap_send_request c command arguments True arrivals)) m =
              Some (fst (dap_send_request c command arguments True arrivals)))"
proof -
  let ?n = "dap_sequence_number c"
  let ?k = "\<lparr>call_seq = ?n, call_command = command, call_arguments = arguments,
             call_pc = AtWait, call_result = None\<rparr>"
  let ?c2 = "c\<lparr>dap_sequence_number := ?n + 1,
               pending_requests := (pending_requests c)(?n \<mapsto> False),
               effects := effects c @
                 [SocketSend (frame_header (length (json_dumps (request_json ?n command arguments)))
                    @ json_dumps (request_json ?n command arguments))]\<rparr>"
  let ?c3 = "while_waiting ?c2 arrivals"
  let ?c5 = "?c3\<lparr>log := log ?c3 @ [TimeoutWaiting command],
                  pending_requests := (pending_requests ?c3)(?n := None)\<rparr>"
  have flag: "pending_requests ?c3 ?n = Some False"
    using while_waiting_other_waiter [OF assms(3), of ?c2] by simp
  from assms(2) obtain peer where peer: "socket c = Some peer" by blast
  have run: "dap_send_request c command arguments True arrivals = (?c5, None)"
    using assms(1) peer flag
    by (simp add: dap_send_request_def begin_request_def register_waiter_def socket_send_def
                  dap_frame_eq wait_event_def finally_pop_def Let_def)
  have late: "handle_message ?c5 m = Some ?c5" if "answers m ?n" for m
    using that by (rule handle_message_late) simp
  show ?thesis unfolding run using late by simp
qed

subsection \<open>The end of the receive loop\<close>

text \<open>
  Claim C4, as stated, fails. The receive loop ends on a zero-length read while the
  request numbered 1 is pending: the waiter is still registered and its flag still
  clear, nothing is logged and the client still counts as connected. The call that
  waits ends by its own timeout and logs it as a timeout.
\<close>

theorem receive_loop_exit_counterexample:
  "pending_requests waiting_client 1 = Some False \<and>
   pending_requests (receive_loop waiting_client [Closed]) 1 = Some False \<and>
   responses (receive_loop waiting_client [Closed]) 1 = None \<and>
   log (receive_loop waiting_client [Closed]) = [] \<and>
   dap_is_connected (receive_loop waiting_client [Closed]) \<and>
   receive_thread (receive_loop waiting_client [Closed]) = Some False \<and>
   snd (dap_send_request connected_client (asc ''threads'') (JDict []) True [Closed]) = None \<and>
   log (fst (dap_send_request connected_client (asc ''threads'') (JDict []) True [Closed])) =
     [TimeoutWaiting (asc ''threads'')]"
  by (simp add: waiting_client_def connected_client_def new_dap_client_def thread_exit_def
                dap_send_request_def begin_request_def register_waiter_def socket_send_def
                dap_frame_eq while_waiting_def wait_event_def finally_pop_def Let_def)

lemma loop_exit_effect:
  assumes "r = Closed \<or> r = RecvRaises"
  shows "pending_requests (receive_loop c (r # rs)) = pending_requests c \<and>
         responses (receive_loop c (r # rs)) = responses c \<and>
         dap_is_connected (receive_loop c (r # rs)) = dap_is_connected c \<and>
         receive_thread (receive_loop c (r # rs)) = Some False \<and>
         log (receive_loop c (r # rs)) =
           log c @ (if r = RecvRaises \<and> dap_is_connected c \<and> socket c \<noteq> None
                    then [ErrorInReceiveLoop] else [])"
  using assms by (auto simp: thread_exit_def loop_error_def)

text \<open>
  Claim C4, amended. When the receive loop ends on a zero-length read or a read error,
  it changes neither table of the correlator nor the connection flag, and logs at most
  the error of the loop. A waiter still pending then is resolved when its own
  ten-second wait ends: its call logs the timeout of its command, keeps the result it
  had (none) and removes the waiter. So no waiter is left for ever, and none is
  resolved with an error that tells of the lost connection.
\<close>

theorem receive_loop_exit_resolves_no_waiter:
  assumes "r = Closed \<or> r = RecvRaises" and "pending_requests c (call_seq k) = Some False"
  shows "pending_requests (receive_loop c (r # rs)) = pending_requests c \<and>
         responses (receive_loop c (r # rs)) = responses c \<and>
         dap_is_connected (receive_loop c (r # rs)) = dap_is_connected c \<and>
         log (receive_loop c (r # rs)) =
           log c @ (if r = RecvRaises \<and> dap_is_connected c \<and> socket c \<noteq> None
                    then [ErrorInReceiveLoop] else []) \<and>
         (case wait_event (receive_loop c (r # rs)) k of
            (c2, k2) \<Rightarrow>
              (case finally_pop c2 k2 of
                 (c3, k3) \<Rightarrow>
                   log c2 = log (receive_loop c (r # rs)) @ [TimeoutWaiting (call_command k)] \<and>
                   call_pc k2 = AtFinally \<and> call_pc k3 = Returned \<and>
                   call_result k3 = call_result k \<and>
                   pending_requests c3 (call_seq k) = None))"
proof -
  note exit = loop_exit_effect [OF assms(1), of c rs]
  from exit assms(2) have "pending_requests (receive_loop c (r # rs)) (call_seq k) = Some False"
    by simp
  then have "(case wait_event (receive_loop c (r # rs)) k of
            (c2, k2) \<Rightarrow>
              (case finally_pop c2 k2 of
                 (c3, k3) \<Rightarrow>
                   log c2 = log (receive_loop c (r # rs)) @ [TimeoutWaiting (call_command k)] \<and>
                   call_pc k2 = AtFinally \<and> call_pc k3 = Returned \<and>
                   call_result k3 = call_result k \<and>
                   pending_requests c3 (call_seq k) = None))"
    by (simp add: wait_event_def finally_pop_def)
  with exit show ?thesis by blast
qed

theorem receive_loop_exit_resolves_no_waiter_witness:
  "pending_requests waiting_client (call_seq (threads_call AtWait)) = Some False \<and>
   pending_requests (receive_loop waiting_client [RecvRaises]) = pending_requests waiting_client \<and>
   log (receive_loop waiting_client [RecvRaises]) = [ErrorInReceiveLoop] \<and>
   log (fst (wait_event (receive_loop waiting_client [RecvRaises]) (threads_call AtWait))) =
     [ErrorInReceiveLoop, TimeoutWaiting (asc ''threads'')]"
proof -
  have p: "pending_requests waiting_client (call_seq (threads_call AtWait)) = Some False"
    by (simp add: waiting_client_def threads_call_def)
  have c: "dap_is_connected waiting_client" "socket waiting_client \<noteq> None" "log waiting_client = []"
    "call_command (threads_call AtWait) = asc ''threads''"
    by (simp_all add: waiting_client_def connected_client_def new_dap_client_def threads_call_def)
  show ?thesis
    using receive_loop_exit_resolves_no_waiter [of RecvRaises waiting_client "threads_call AtWait" "[]", OF _ p]
      p c
    by (auto split: prod.splits)
qed

subsection \<open>Sequence numbers\<close>





















subsection \<open>A timeout among other callers\<close>









end
